theory Spec2Isabelle
  imports Complex_Main "HOL-Library.Word"
begin

unbundle bit_operations_syntax

section \<open>The register map of \<^verbatim>\<open>src/wm8960.h\<close>\<close>

text \<open>
  The header consists of object-like macros only. Every literal with the suffix \<^verbatim>\<open>u\<close> has
  the C type \<^verbatim>\<open>unsigned int\<close>, taken here as 32 bits wide; \<^verbatim>\<open>1u << k\<close> is the left shift
  of that type, \<open>push_bit k 1\<close>. The largest constant of the header is \<open>0x100\<close>, so a
  16-bit \<^verbatim>\<open>unsigned int\<close> would hold the same values. The one literal without suffix,
  \<^verbatim>\<open>WM8960_R0_LINVOL_SHIFT\<close>, is the \<^verbatim>\<open>int\<close> 0; it is a shift count and is modelled as
  a natural number.
\<close>

type_synonym uint = "32 word"

subsection \<open>Group \<^verbatim>\<open>WM8960_R0_*\<close> (lines 15 to 22)\<close>

definition WM8960_R0_ADDR :: uint where
  "WM8960_R0_ADDR = 0x00"

definition WM8960_R0_IPVU :: uint where
  "WM8960_R0_IPVU = push_bit 8 1"

definition WM8960_R0_LINMUTE :: uint where
  "WM8960_R0_LINMUTE = push_bit 7 1"

definition WM8960_R0_LIZC :: uint where
  "WM8960_R0_LIZC = push_bit 6 1"

definition WM8960_R0_LINVOL_MASK :: uint where
  "WM8960_R0_LINVOL_MASK = 0x3F"

definition WM8960_R0_LINVOL_SHIFT :: nat where
  "WM8960_R0_LINVOL_SHIFT = 0"

definition WM8960_R0_LINVOL_0DB :: uint where
  "WM8960_R0_LINVOL_0DB = 0x17"

definition WM8960_R0_LINVOL_MAX_30DB :: uint where
  "WM8960_R0_LINVOL_MAX_30DB = 0x3F"

subsection \<open>Group \<^verbatim>\<open>WM8960_LEFT_RIGHT_IN_VOL_*\<close> (lines 34 to 38)\<close>

definition WM8960_LEFT_RIGHT_IN_VOL_IPVU :: uint where
  "WM8960_LEFT_RIGHT_IN_VOL_IPVU = 0x100"

definition WM8960_LEFT_RIGHT_IN_VOL_INMUTE :: uint where
  "WM8960_LEFT_RIGHT_IN_VOL_INMUTE = 0x080"

definition WM8960_LEFT_RIGHT_IN_VOL_IZC_ZC :: uint where
  "WM8960_LEFT_RIGHT_IN_VOL_IZC_ZC = 0x040"

definition WM8960_LEFT_RIGHT_IN_VOL_INVOL_0dB :: uint where
  "WM8960_LEFT_RIGHT_IN_VOL_INVOL_0dB = 0x017"

definition WM8960_LEFT_RIGHT_IN_VOL_INVOL_30dB :: uint where
  "WM8960_LEFT_RIGHT_IN_VOL_INVOL_30dB = 0x03F"

subsection \<open>What the doc comment of register 0 records (lines 5 to 13)\<close>


definition LINVOL_documented_step_dB :: rat where
  "LINVOL_documented_step_dB = 75 / 100"


datatype R0_field = IPVU | LINMUTE | LIZC | LINVOL

text \<open>The macro of the first group that selects the bits of each field.\<close>

fun R0_field_mask :: "R0_field \<Rightarrow> uint" where
  "R0_field_mask IPVU = WM8960_R0_IPVU"
| "R0_field_mask LINMUTE = WM8960_R0_LINMUTE"
| "R0_field_mask LIZC = WM8960_R0_LIZC"
| "R0_field_mask LINVOL = WM8960_R0_LINVOL_MASK"

subsection \<open>Bit ranges as the register table writes them\<close>

text \<open>
  The table of external interfaces and the doc comment name a field by its bit range,
  \<^verbatim>\<open>8\<close>, \<^verbatim>\<open>7\<close>, \<^verbatim>\<open>6\<close> or \<^verbatim>\<open>5:0\<close>. \<open>datasheet_bits hi lo\<close> is the register value in
  which exactly the bits \<open>lo\<close> up to \<open>hi\<close> are set, built one bit at a time and
  independently of the way the header spells its constants.
\<close>

definition datasheet_bits :: "nat \<Rightarrow> nat \<Rightarrow> uint" where
  "datasheet_bits hi lo = foldr set_bit [lo..<Suc hi] 0"

section \<open>Auxiliary facts\<close>

lemma single_bit_iff:
  "k < 32 \<Longrightarrow> bit (push_bit k 1 :: uint) n \<longleftrightarrow> n = k"
  by (auto simp add: bit_simps)

lemma low_six_bits_iff:
  "bit (0x3F :: uint) n \<longleftrightarrow> n < 6"
proof -
  have eq: "(0x3F :: uint) = mask 6"
    by (simp add: mask_eq_exp_minus_1)
  show ?thesis
    unfolding eq by (auto simp add: bit_simps)
qed

lemma flag_literals:
  "(0x100 :: uint) = push_bit 8 1" "(0x080 :: uint) = push_bit 7 1"
  "(0x040 :: uint) = push_bit 6 1"
  by simp_all

lemma flag_occupies:
  fixes c :: uint
  assumes "c = push_bit k 1" and "k < 32"
  shows "\<forall>n. bit c n \<longleftrightarrow> n = k"
  using assms by (simp add: single_bit_iff del: push_bit_of_1)

lemma datasheet_bits_values:
  "datasheet_bits 8 8 = 0x100" "datasheet_bits 7 7 = 0x080" "datasheet_bits 6 6 = 0x040"
  "datasheet_bits 5 0 = 0x03F"
  by (simp_all add: datasheet_bits_def upt_rec set_bit_eq_or)

section \<open>Field masks of register 0\<close>

text \<open>
  Claim C1. Each of the four fields IPVU, LINMUTE, LIZC and LINVOL of the Left Input
  Volume register has a mask different from zero, and the masks of two distinct fields
  have no bit in common: their bitwise AND is zero.
\<close>

theorem R0_field_masks_nonzero_disjoint:
  "R0_field_mask f \<noteq> 0 \<and> (f \<noteq> g \<longrightarrow> R0_field_mask f AND R0_field_mask g = 0)"
  by (cases f; cases g;
      simp add: WM8960_R0_IPVU_def WM8960_R0_LINMUTE_def WM8960_R0_LIZC_def
        WM8960_R0_LINVOL_MASK_def)

theorem R0_field_masks_nonzero_disjoint_witness:
  "LINMUTE \<noteq> LINVOL \<and> R0_field_mask LINMUTE \<noteq> 0
    \<and> R0_field_mask LINMUTE AND R0_field_mask LINVOL = 0"
  using R0_field_masks_nonzero_disjoint [of LINMUTE LINVOL] by simp

section \<open>Gain codes\<close>

text \<open>
  Claim C2. The 0 dB gain code is \<open>0x17\<close> and the maximum gain code is \<open>0x3F\<close>, under
  either name the header gives them, and over the rationals the distance between the two
  codes times the documented step of 0.75 dB is exactly 30 dB:
  \<open>(0x3F - 0x17) * 0.75 = 30\<close>.
\<close>

theorem LINVOL_0dB_to_max_is_30dB:
  "WM8960_R0_LINVOL_0DB = 0x17 \<and> WM8960_LEFT_RIGHT_IN_VOL_INVOL_0dB = 0x17
    \<and> WM8960_R0_LINVOL_MAX_30DB = 0x3F \<and> WM8960_LEFT_RIGHT_IN_VOL_INVOL_30dB = 0x3F
    \<and> LINVOL_documented_step_dB = 0.75
    \<and> (of_nat (unat WM8960_R0_LINVOL_MAX_30DB) - of_nat (unat WM8960_R0_LINVOL_0DB))
        * LINVOL_documented_step_dB = 30
    \<and> (of_nat (unat WM8960_LEFT_RIGHT_IN_VOL_INVOL_30dB)
          - of_nat (unat WM8960_LEFT_RIGHT_IN_VOL_INVOL_0dB))
        * LINVOL_documented_step_dB = 30"
  by (simp add: WM8960_R0_LINVOL_0DB_def WM8960_LEFT_RIGHT_IN_VOL_INVOL_0dB_def
      WM8960_R0_LINVOL_MAX_30DB_def WM8960_LEFT_RIGHT_IN_VOL_INVOL_30dB_def
      LINVOL_documented_step_dB_def)

section \<open>Bit positions of the fields\<close>

text \<open>
  Claim C3. The IPVU (volume update) constant occupies exactly bit 8: bit \<open>n\<close> of it is
  set if and only if \<open>n = 8\<close>, it equals 1 shifted left by 8, and its value is \<open>0x100\<close>.
  This holds for both constants the header defines for the field, \<^verbatim>\<open>WM8960_R0_IPVU\<close> and
  \<^verbatim>\<open>WM8960_LEFT_RIGHT_IN_VOL_IPVU\<close>.
\<close>

theorem IPVU_is_bit_8:
  "(\<forall>n. bit WM8960_R0_IPVU n \<longleftrightarrow> n = 8)
    \<and> WM8960_R0_IPVU = push_bit 8 1 \<and> WM8960_R0_IPVU = 0x100
    \<and> (\<forall>n. bit WM8960_LEFT_RIGHT_IN_VOL_IPVU n \<longleftrightarrow> n = 8)
    \<and> WM8960_LEFT_RIGHT_IN_VOL_IPVU = push_bit 8 1
    \<and> WM8960_LEFT_RIGHT_IN_VOL_IPVU = 0x100"
proof -
  have r0: "WM8960_R0_IPVU = push_bit 8 1"
    by (simp only: WM8960_R0_IPVU_def)
  have lr: "WM8960_LEFT_RIGHT_IN_VOL_IPVU = push_bit 8 1"
    by (simp only: WM8960_LEFT_RIGHT_IN_VOL_IPVU_def flag_literals)
  have v: "WM8960_R0_IPVU = 0x100" "WM8960_LEFT_RIGHT_IN_VOL_IPVU = 0x100"
    by (simp_all add: WM8960_R0_IPVU_def WM8960_LEFT_RIGHT_IN_VOL_IPVU_def)
  have b: "\<forall>n. bit WM8960_R0_IPVU n \<longleftrightarrow> n = 8"
    "\<forall>n. bit WM8960_LEFT_RIGHT_IN_VOL_IPVU n \<longleftrightarrow> n = 8"
    using flag_occupies [OF r0] flag_occupies [OF lr] by simp_all
  from r0 lr v b show ?thesis
    by blast
qed

text \<open>
  Claim C4. The LINMUTE (mute) constant occupies exactly bit 7: bit \<open>n\<close> of it is set if
  and only if \<open>n = 7\<close>, it equals 1 shifted left by 7, and its value is \<open>0x080\<close>. This holds
  for both constants the header defines for the field, \<^verbatim>\<open>WM8960_R0_LINMUTE\<close> and
  \<^verbatim>\<open>WM8960_LEFT_RIGHT_IN_VOL_INMUTE\<close>.
\<close>

theorem LINMUTE_is_bit_7:
  "(\<forall>n. bit WM8960_R0_LINMUTE n \<longleftrightarrow> n = 7)
    \<and> WM8960_R0_LINMUTE = push_bit 7 1 \<and> WM8960_R0_LINMUTE = 0x080
    \<and> (\<forall>n. bit WM8960_LEFT_RIGHT_IN_VOL_INMUTE n \<longleftrightarrow> n = 7)
    \<and> WM8960_LEFT_RIGHT_IN_VOL_INMUTE = push_bit 7 1
    \<and> WM8960_LEFT_RIGHT_IN_VOL_INMUTE = 0x080"
proof -
  have r0: "WM8960_R0_LINMUTE = push_bit 7 1"
    by (simp only: WM8960_R0_LINMUTE_def)
  have lr: "WM8960_LEFT_RIGHT_IN_VOL_INMUTE = push_bit 7 1"
    by (simp only: WM8960_LEFT_RIGHT_IN_VOL_INMUTE_def flag_literals)
  have v: "WM8960_R0_LINMUTE = 0x080" "WM8960_LEFT_RIGHT_IN_VOL_INMUTE = 0x080"
    by (simp_all add: WM8960_R0_LINMUTE_def WM8960_LEFT_RIGHT_IN_VOL_INMUTE_def)
  have b: "\<forall>n. bit WM8960_R0_LINMUTE n \<longleftrightarrow> n = 7"
    "\<forall>n. bit WM8960_LEFT_RIGHT_IN_VOL_INMUTE n \<longleftrightarrow> n = 7"
    using flag_occupies [OF r0] flag_occupies [OF lr] by simp_all
  from r0 lr v b show ?thesis
    by blast
qed

text \<open>
  Claim C5. The LIZC (zero-cross enable) constant occupies exactly bit 6: bit \<open>n\<close> of it
  is set if and only if \<open>n = 6\<close>, it equals 1 shifted left by 6, and its value is \<open>0x040\<close>.
  This holds for both constants the header defines for the field, \<^verbatim>\<open>WM8960_R0_LIZC\<close> and
  \<^verbatim>\<open>WM8960_LEFT_RIGHT_IN_VOL_IZC_ZC\<close>.
\<close>

theorem LIZC_is_bit_6:
  "(\<forall>n. bit WM8960_R0_LIZC n \<longleftrightarrow> n = 6)
    \<and> WM8960_R0_LIZC = push_bit 6 1 \<and> WM8960_R0_LIZC = 0x040
    \<and> (\<forall>n. bit WM8960_LEFT_RIGHT_IN_VOL_IZC_ZC n \<longleftrightarrow> n = 6)
    \<and> WM8960_LEFT_RIGHT_IN_VOL_IZC_ZC = push_bit 6 1
    \<and> WM8960_LEFT_RIGHT_IN_VOL_IZC_ZC = 0x040"
proof -
  have r0: "WM8960_R0_LIZC = push_bit 6 1"
    by (simp only: WM8960_R0_LIZC_def)
  have lr: "WM8960_LEFT_RIGHT_IN_VOL_IZC_ZC = push_bit 6 1"
    by (simp only: WM8960_LEFT_RIGHT_IN_VOL_IZC_ZC_def flag_literals)
  have v: "WM8960_R0_LIZC = 0x040" "WM8960_LEFT_RIGHT_IN_VOL_IZC_ZC = 0x040"
    by (simp_all add: WM8960_R0_LIZC_def WM8960_LEFT_RIGHT_IN_VOL_IZC_ZC_def)
  have b: "\<forall>n. bit WM8960_R0_LIZC n \<longleftrightarrow> n = 6"
    "\<forall>n. bit WM8960_LEFT_RIGHT_IN_VOL_IZC_ZC n \<longleftrightarrow> n = 6"
    using flag_occupies [OF r0] flag_occupies [OF lr] by simp_all
  from r0 lr v b show ?thesis
    by blast
qed

text \<open>
  Claim C6. The LINVOL (gain code) mask covers exactly bits 5 down to 0: bit \<open>n\<close> of the
  mask is set if and only if \<open>n < 6\<close>, the mask constant is \<open>0x3F\<close>, and the shift
  constant is 0.
\<close>

theorem LINVOL_MASK_is_bits_5_0:
  "(\<forall>n. bit WM8960_R0_LINVOL_MASK n \<longleftrightarrow> n < 6) \<and> WM8960_R0_LINVOL_MASK = 0x3F
    \<and> WM8960_R0_LINVOL_SHIFT = 0"
proof (intro conjI allI)
  fix n
  show "bit WM8960_R0_LINVOL_MASK n \<longleftrightarrow> n < 6"
    unfolding WM8960_R0_LINVOL_MASK_def by (rule low_six_bits_iff)
next
  show "WM8960_R0_LINVOL_MASK = 0x3F"
    by (simp add: WM8960_R0_LINVOL_MASK_def)
next
  show "WM8960_R0_LINVOL_SHIFT = 0"
    by (simp add: WM8960_R0_LINVOL_SHIFT_def)
qed

section \<open>The constants against the documented layout\<close>

text \<open>
  Claim C7. The address constant of the Left Input Volume register is \<open>0x00\<close>, and each
  field constant of the register equals the value built from the bit positions that the
  doc comment gives: bit 8 for IPVU, bit 7 for LINMUTE, bit 6 for LIZC, and bits 5 to 0
  for LINVOL, whose lowest bit is the shift constant.
\<close>

theorem R0_constants_rederived:
  "WM8960_R0_ADDR = 0x00
    \<and> WM8960_R0_IPVU = datasheet_bits 8 8
    \<and> WM8960_R0_LINMUTE = datasheet_bits 7 7
    \<and> WM8960_R0_LIZC = datasheet_bits 6 6
    \<and> WM8960_R0_LINVOL_MASK = datasheet_bits 5 0
    \<and> WM8960_R0_LINVOL_SHIFT = 0"
  by (simp add: datasheet_bits_values WM8960_R0_ADDR_def WM8960_R0_IPVU_def
      WM8960_R0_LINMUTE_def WM8960_R0_LIZC_def WM8960_R0_LINVOL_MASK_def
      WM8960_R0_LINVOL_SHIFT_def)

text \<open>
  Claim C8. Each documented LINVOL value, the 0 dB code \<open>0x17\<close> and the maximum code
  \<open>0x3F\<close> under either of their names, shifted left by the LINVOL shift amount, lies
  within the LINVOL mask: its AND with the complement of the mask is zero.
\<close>

theorem LINVOL_values_fit_mask:
  "push_bit WM8960_R0_LINVOL_SHIFT WM8960_R0_LINVOL_0DB AND NOT WM8960_R0_LINVOL_MASK = 0
    \<and> push_bit WM8960_R0_LINVOL_SHIFT WM8960_R0_LINVOL_MAX_30DB
        AND NOT WM8960_R0_LINVOL_MASK = 0
    \<and> push_bit WM8960_R0_LINVOL_SHIFT WM8960_LEFT_RIGHT_IN_VOL_INVOL_0dB
        AND NOT WM8960_R0_LINVOL_MASK = 0
    \<and> push_bit WM8960_R0_LINVOL_SHIFT WM8960_LEFT_RIGHT_IN_VOL_INVOL_30dB
        AND NOT WM8960_R0_LINVOL_MASK = 0"
  by (simp add: WM8960_R0_LINVOL_SHIFT_def WM8960_R0_LINVOL_0DB_def
      WM8960_R0_LINVOL_MAX_30DB_def WM8960_R0_LINVOL_MASK_def
      WM8960_LEFT_RIGHT_IN_VOL_INVOL_0dB_def WM8960_LEFT_RIGHT_IN_VOL_INVOL_30dB_def)



section \<open>The two naming groups\<close>

text \<open>
  Claim C10. The two groups of names define the same value field for field: IPVU, the
  mute bit, the zero-cross bit, the 0 dB code and the 30 dB code.
\<close>

theorem naming_groups_agree:
  "WM8960_R0_IPVU = WM8960_LEFT_RIGHT_IN_VOL_IPVU
    \<and> WM8960_R0_LINMUTE = WM8960_LEFT_RIGHT_IN_VOL_INMUTE
    \<and> WM8960_R0_LIZC = WM8960_LEFT_RIGHT_IN_VOL_IZC_ZC
    \<and> WM8960_R0_LINVOL_0DB = WM8960_LEFT_RIGHT_IN_VOL_INVOL_0dB
    \<and> WM8960_R0_LINVOL_MAX_30DB = WM8960_LEFT_RIGHT_IN_VOL_INVOL_30dB"
  by (simp add: WM8960_R0_IPVU_def WM8960_R0_LINMUTE_def WM8960_R0_LIZC_def
      WM8960_R0_LINVOL_0DB_def WM8960_R0_LINVOL_MAX_30DB_def
      WM8960_LEFT_RIGHT_IN_VOL_IPVU_def WM8960_LEFT_RIGHT_IN_VOL_INMUTE_def
      WM8960_LEFT_RIGHT_IN_VOL_IZC_ZC_def WM8960_LEFT_RIGHT_IN_VOL_INVOL_0dB_def
      WM8960_LEFT_RIGHT_IN_VOL_INVOL_30dB_def)

end
